theory Spec2Isabelle
  imports Main "HOL-Library.Word" "HOL-Library.AList"
begin

section \<open>The galaxykit client (src/galaxykit/client.py)\<close>

text \<open>
  The module defines one class, \<open>GalaxyClient\<close>: a constructor that trades a
  credential pair for a token, the dispatch \<open>_http\<close>, the payload encoder \<open>_payload\<close>
  and the three primitives \<open>get\<close>, \<open>post\<close>, \<open>put\<close>. The remaining methods forward to
  modules that are not part of the file.

  The embedding keeps the structure of the code. Python objects that are shared by
  reference (dictionaries, the client) live in a store; every call to the outside
  (the network, the two output streams, the container engine) is recorded in a trace;
  every exception is a value of the type \<open>error\<close>.
\<close>

subsection \<open>Values\<close>

type_synonym byte = "8 word"

text \<open>
  A Python \<open>str\<close> is a sequence of code points. The type \<open>string\<close> holds the code
  points below 256, one per \<open>char\<close>; \<open>length\<close> counts code points, as \<open>len\<close> does.
\<close>

text \<open>A \<open>dict\<close> from \<open>str\<close> to \<open>str\<close>, in insertion order.\<close>

type_synonym dict = "(string \<times> string) list"

text \<open>What \<open>resp.json()\<close> can return (floating point numbers are left out).\<close>

datatype json =
    JNull
  | JBool bool
  | JInt int
  | JStr string
  | JList "json list"
  | JDict "(string \<times> json) list"

text \<open>The Python values that the two dynamically typed expressions of the file meet.\<close>

datatype pyval =
    PStr string
  | PBytes "byte list"
  | PList "pyval list"

datatype error =
    NameError string
  | TypeError string
  | AttributeError string
  | ValueError string
  | Exception string
  | TransportError string

subsection \<open>The library functions the file calls\<close>

text \<open>
  \<open>urljoin\<close> and \<open>urlparse\<close> (urllib), \<open>dumps\<close> (simplejson) and the conversion of a
  value inside an f-string are not code of the file: they are parameters of the model.
\<close>

record library =
  urljoin :: "string \<Rightarrow> string \<Rightarrow> string"
  urlparse_netloc :: "string \<Rightarrow> string"
  dumps :: "(string \<times> json) list \<Rightarrow> string"
  str_of :: "json \<Rightarrow> string"

text \<open>
  A \<open>requests.Response\<close>, by what the file asks of it: \<open>resp.text\<close>, \<open>resp.json()\<close>
  (\<open>None\<close> when the body does not parse, which the library signals by raising
  \<open>JSONDecodeError\<close>), and the chunks its iteration yields. \<open>Response.__iter__\<close> is
  \<open>iter_content(128)\<close>: the chunks are \<open>bytes\<close> objects.
\<close>

record response =
  resp_text :: string
  resp_json :: "json option"
  resp_chunks :: "byte list list"

type_synonym addr = nat

text \<open>
  The two calls into \<open>requests\<close>: \<open>requests.post(url, auth=(user, password))\<close> and
  \<open>requests.request(method, url, headers=headers, data=body)\<close>. The second carries the
  reference of the header dictionary it is given and the contents at the time of the
  call; \<open>data\<close> is absent on \<open>get\<close>.
\<close>

datatype request =
    TokenPost string "string \<times> string"
  | Request string string addr dict "byte list option"

text \<open>
  The network answers a request with a response or fails in transport. It reads the
  dictionary it is given and never writes to it.
\<close>

type_synonym network = "request \<Rightarrow> error + response"

text \<open>
  Modelled from the spec: the constructor of \<open>dockerutils.DockerClient\<close>, which is
  not among the sources. The spec gives its contract only: it is constructed with
  (credentials, engine selector, registry host). The model records the three
  arguments; the registry is whatever value the expression of line 44 produced.
\<close>

record docker =
  docker_auth :: "string \<times> string"
  docker_engine :: string
  docker_registry :: pyval

datatype event =
    Sent request
  | Stdout string
  | Stderr string
  | DockerInit docker

subsection \<open>The store\<close>

text \<open>
  The attributes of a \<open>GalaxyClient\<close>. \<open>headers\<close> is a reference to a dictionary.
  \<open>token\<close> starts as the class attribute \<open>""\<close> and takes whatever
  \<open>resp.json().get("token")\<close> returns.
\<close>

record client =
  galaxy_root :: string
  headers :: addr
  token :: json
  docker_client :: "docker option"

record state =
  dicts :: "dict list"
  clients :: "client list"
  trace :: "event list"

definition emit :: "event \<Rightarrow> state \<Rightarrow> state" where
  "emit e s = s\<lparr>trace := trace s @ [e]\<rparr>"

definition new_dict :: "dict \<Rightarrow> state \<Rightarrow> addr \<times> state" where
  "new_dict d s = (length (dicts s), s\<lparr>dicts := dicts s @ [d]\<rparr>)"

definition new_client :: "client \<Rightarrow> state \<Rightarrow> addr \<times> state" where
  "new_client c s = (length (clients s), s\<lparr>clients := clients s @ [c]\<rparr>)"

definition dict_at :: "state \<Rightarrow> addr \<Rightarrow> dict" where
  "dict_at s a = dicts s ! a"

definition client_at :: "state \<Rightarrow> addr \<Rightarrow> client" where
  "client_at s a = clients s ! a"

definition send :: "network \<Rightarrow> request \<Rightarrow> state \<Rightarrow> (error + response) \<times> state" where
  "send net r s = (net r, emit (Sent r) s)"

subsection \<open>Python primitives\<close>

text \<open>\<open>d[k] = v\<close>: an existing key keeps its place, a new key goes last.\<close>

definition dict_set :: "string \<Rightarrow> string \<Rightarrow> dict \<Rightarrow> dict" where
  "dict_set k v d = AList.update k v d"

text \<open>\<open>d.update(e)\<close>, also the unpacking \<open>**e\<close> inside a dictionary display.\<close>

definition dict_update :: "dict \<Rightarrow> dict \<Rightarrow> dict" where
  "dict_update d e = fold (\<lambda>(k, v). dict_set k v) e d"

text \<open>\<open>s.encode('utf8')\<close> for code points below 256: one byte below 128, else two.\<close>

definition encode_utf8 :: "string \<Rightarrow> byte list" where
  "encode_utf8 s =
     concat (map (\<lambda>c. if of_char c < (128::nat) then [of_char c]
                       else [of_nat (192 + of_char c div 64), of_nat (128 + of_char c mod 64)]) s)"

text \<open>\<open>str(n)\<close> for a length: the decimal digits.\<close>

definition digit :: "nat \<Rightarrow> char" where
  "digit d = char_of (48 + d)"

fun str_nat :: "nat \<Rightarrow> string" where
  "str_nat n = (if n < 10 then [digit n] else str_nat (n div 10) @ [digit (n mod 10)])"

text \<open>\<open>s.split(sep)\<close> with a one-character separator.\<close>

fun split_on :: "char \<Rightarrow> string \<Rightarrow> string list" where
  "split_on sep [] = [[]]"
| "split_on sep (c # cs) =
     (if c = sep then [] # split_on sep cs
      else (case split_on sep cs of [] \<Rightarrow> [[c]] | w # ws \<Rightarrow> (c # w) # ws))"

text \<open>
  \<open>a + b\<close>: two strings, two byte strings or two lists concatenate; any other pair
  raises \<open>TypeError\<close>.
\<close>

fun py_add :: "pyval \<Rightarrow> pyval \<Rightarrow> error + pyval" where
  "py_add (PStr a) (PStr b) = Inr (PStr (a @ b))"
| "py_add (PBytes a) (PBytes b) = Inr (PBytes (a @ b))"
| "py_add (PList a) (PList b) = Inr (PList (a @ b))"
| "py_add a b = Inl (TypeError ''unsupported operand types for +'')"

text \<open>
  \<open>x in obj\<close> for an object that defines \<open>__iter__\<close> and no \<open>__contains__\<close>: true when
  \<open>x\<close> equals one of the items the iteration yields. A \<open>str\<close> never equals a \<open>bytes\<close>.
\<close>

definition py_in :: "pyval \<Rightarrow> pyval list \<Rightarrow> bool" where
  "py_in x ys = (x \<in> set ys)"

text \<open>
  The value an f-string inserts for \<open>{v}\<close>: a \<open>str\<close> is inserted as it is, \<open>None\<close> as
  \<open>None\<close>, any other value as the library prints it.
\<close>

definition format_value :: "library \<Rightarrow> json \<Rightarrow> string" where
  "format_value L v = (case v of JStr s \<Rightarrow> s | JNull \<Rightarrow> ''None'' | _ \<Rightarrow> str_of L v)"

text \<open>
  \<open>v.get(k)\<close>: on a dictionary the value or \<open>None\<close>; no other JSON value has the
  attribute \<open>get\<close>.
\<close>

definition json_get :: "json \<Rightarrow> string \<Rightarrow> error + json" where
  "json_get v k =
     (case v of
        JDict kvs \<Rightarrow> (case map_of kvs k of None \<Rightarrow> Inr JNull | Some x \<Rightarrow> Inr x)
      | _ \<Rightarrow> Inl (AttributeError ''get''))"

text \<open>
  Reading a name. \<open>env\<close> holds the string-valued local variables of the running
  function. The names bound at module level are the imports and the class; none of
  them is a string. A name that is bound nowhere raises \<open>NameError\<close>.
\<close>

definition module_names :: "string list" where
  "module_names = [''JSONDecodeError'', ''dumps'', ''sys'', ''urlparse'', ''urljoin'',
     ''requests'', ''dockerutils'', ''users'', ''groups'', ''GalaxyClient'']"

definition lookup :: "(string \<times> string) list \<Rightarrow> string \<Rightarrow> error + string" where
  "lookup env n = (case map_of env n of Some v \<Rightarrow> Inr v | None \<Rightarrow> Inl (NameError n))"

subsection \<open>The constructor\<close>

text \<open>
  Lines 34 to 37: \<open>self.token = resp.json().get("token")\<close> inside a \<open>try\<close> that
  catches \<open>JSONDecodeError\<close> only, printing to standard error.
\<close>

definition fetch_token :: "response \<Rightarrow> addr \<Rightarrow> state \<Rightarrow> (error + unit) \<times> state" where
  "fetch_token resp self s =
     (case resp_json resp of
        None \<Rightarrow> (Inr (), emit (Stderr (''Failed to fetch token: '' @ resp_text resp)) s)
      | Some j \<Rightarrow>
          (case json_get j ''token'' of
             Inl e \<Rightarrow> (Inl e, s)
           | Inr t \<Rightarrow> (Inr (), s\<lparr>clients := (clients s)[self := (client_at s self)\<lparr>token := t\<rparr>]\<rparr>)))"

text \<open>
  Lines 38 to 41: \<open>self.headers.update({...})\<close> writes into the dictionary the
  client refers to.
\<close>

definition set_auth_headers :: "library \<Rightarrow> addr \<Rightarrow> state \<Rightarrow> state" where
  "set_auth_headers L self s =
     (let c = client_at s self in
      s\<lparr>dicts := (dicts s)[headers c :=
           dict_update (dict_at s (headers c))
             [(''Accept'', ''application/json''),
              (''Authorization'', ''Token '' @ format_value L (token c))]]\<rparr>)"

text \<open>
  Lines 44 and 45: \<open>container_registry or urlparse(self.galaxy_root).netloc.split(":") + ":5001"\<close>.
  The right operand adds a string to the list that \<open>split\<close> returns.
\<close>

definition default_registry :: "library \<Rightarrow> string \<Rightarrow> error + pyval" where
  "default_registry L root =
     py_add (PList (map PStr (split_on CHR '':'' (urlparse_netloc L root)))) (PStr '':5001'')"

definition registry_or_default :: "library \<Rightarrow> string \<Rightarrow> string option \<Rightarrow> error + pyval" where
  "registry_or_default L root container_registry =
     (case container_registry of
        None \<Rightarrow> default_registry L root
      | Some r \<Rightarrow> if r \<noteq> [] then Inr (PStr r) else default_registry L root)"

text \<open>Lines 43 to 49, for an engine that is given and not empty.\<close>

definition init_container ::
  "library \<Rightarrow> (string \<times> string) list \<Rightarrow> addr \<Rightarrow> string \<Rightarrow> string option \<Rightarrow> state
     \<Rightarrow> (error + addr) \<times> state" where
  "init_container L env self engine container_registry s =
     (case registry_or_default L (galaxy_root (client_at s self)) container_registry of
        Inl e \<Rightarrow> (Inl e, s)
      | Inr registry \<Rightarrow>
     (case lookup env ''user'' of
        Inl e \<Rightarrow> (Inl e, s)
      | Inr user \<Rightarrow>
     (case lookup env ''password'' of
        Inl e \<Rightarrow> (Inl e, s)
      | Inr password \<Rightarrow>
          (let d = \<lparr>docker_auth = (user, password), docker_engine = engine,
                     docker_registry = registry\<rparr>;
               s1 = emit (DockerInit d) s
           in (Inr self,
               s1\<lparr>clients := (clients s1)[self := (client_at s1 self)\<lparr>docker_client := Some d\<rparr>]\<rparr>)))))"

text \<open>
  \<open>__init__\<close>. The object and its empty header dictionary are created first. With
  credentials, line 32 binds \<open>username\<close> and \<open>password\<close>; line 33 builds the URL, then
  reads the names \<open>user\<close> and \<open>password\<close>, then posts. The result is the reference of
  the new client, or the exception that left the constructor.
\<close>

definition init ::
  "library \<Rightarrow> network \<Rightarrow> string \<Rightarrow> (string \<times> string) option \<Rightarrow> string option
     \<Rightarrow> string option \<Rightarrow> state \<Rightarrow> (error + addr) \<times> state" where
  "init L net root auth container_engine container_registry s0 =
     (let (h, s1) = new_dict [] s0;
          (self, s2) = new_client
             \<lparr>galaxy_root = root, headers = h, token = JStr [], docker_client = None\<rparr> s1
      in case auth of
           None \<Rightarrow> (Inr self, s2)
         | Some (username, password) \<Rightarrow>
             (let env = [(''galaxy_root'', root), (''username'', username),
                         (''password'', password)];
                  url = root @ ''v3/auth/token/''
              in case lookup env ''user'' of
                   Inl e \<Rightarrow> (Inl e, s2)
                 | Inr user \<Rightarrow>
                (case lookup env ''password'' of
                   Inl e \<Rightarrow> (Inl e, s2)
                 | Inr pw \<Rightarrow>
                (case send net (TokenPost url (user, pw)) s2 of
                   (Inl e, s3) \<Rightarrow> (Inl e, s3)
                 | (Inr resp, s3) \<Rightarrow>
                (case fetch_token resp self s3 of
                   (Inl e, s4) \<Rightarrow> (Inl e, s4)
                 | (Inr _, s4) \<Rightarrow>
                    (let s5 = set_auth_headers L self s4
                     in case container_engine of
                          None \<Rightarrow> (Inr self, s5)
                        | Some engine \<Rightarrow>
                            if engine \<noteq> []
                            then init_container L env self engine container_registry s5
                            else (Inr self, s5)))))))"

subsection \<open>Dispatch\<close>

text \<open>
  \<open>_http\<close>. \<open>hopt\<close> is the keyword argument \<open>headers\<close> when the caller gives one,
  \<open>data\<close> the keyword argument \<open>data\<close>. After the response has parsed, line 60
  evaluates \<open>"errors" in resp\<close> on the response object, and line 62 would subscript
  that object, which a \<open>Response\<close> does not support.
\<close>

definition http ::
  "library \<Rightarrow> network \<Rightarrow> addr \<Rightarrow> string \<Rightarrow> string \<Rightarrow> addr option \<Rightarrow> byte list option
     \<Rightarrow> state \<Rightarrow> (error + json) \<times> state" where
  "http L net self method path hopt data s =
     (let url = urljoin L (galaxy_root (client_at s self)) path;
          h = (case hopt of None \<Rightarrow> headers (client_at s self) | Some a \<Rightarrow> a)
      in case send net (Request method url h (dict_at s h) data) s of
           (Inl e, s1) \<Rightarrow> (Inl e, s1)
         | (Inr resp, s1) \<Rightarrow>
             (case resp_json resp of
                None \<Rightarrow>
                  (Inl (ValueError ''Failed to parse JSON response from API''),
                   emit (Stdout (resp_text resp)) s1)
              | Some j \<Rightarrow>
                  if py_in (PStr ''errors'') (map PBytes (resp_chunks resp))
                  then (Inl (TypeError ''Response object is not subscriptable''), s1)
                  else (Inr j, s1)))"

text \<open>The argument \<open>body\<close> of \<open>post\<close> and \<open>put\<close>: a mapping, a string or bytes.\<close>

datatype body =
    BodyDict "(string \<times> json) list"
  | BodyStr string
  | BodyBytes "byte list"

text \<open>
  \<open>_payload\<close>: a mapping is serialised, a string is encoded, and a new dictionary
  takes the entries of the chosen headers followed by the two content headers.
\<close>

definition payload_bytes :: "library \<Rightarrow> body \<Rightarrow> byte list" where
  "payload_bytes L b =
     (case b of
        BodyDict d \<Rightarrow> encode_utf8 (dumps L d)
      | BodyStr t \<Rightarrow> encode_utf8 t
      | BodyBytes bs \<Rightarrow> bs)"

definition payload_headers :: "dict \<Rightarrow> byte list \<Rightarrow> dict" where
  "payload_headers base data =
     dict_set ''Content-length'' (str_nat (length data))
       (dict_set ''Content-Type'' ''application/json;charset=utf-8'' (dict_update [] base))"

definition payload ::
  "library \<Rightarrow> network \<Rightarrow> addr \<Rightarrow> string \<Rightarrow> string \<Rightarrow> body \<Rightarrow> addr option
     \<Rightarrow> state \<Rightarrow> (error + json) \<times> state" where
  "payload L net self method path b hopt s =
     (let data = payload_bytes L b;
          base = (case hopt of None \<Rightarrow> headers (client_at s self) | Some a \<Rightarrow> a);
          (h, s1) = new_dict (payload_headers (dict_at s base) data) s
      in http L net self method path (Some h) (Some data) s1)"

definition get ::
  "library \<Rightarrow> network \<Rightarrow> addr \<Rightarrow> string \<Rightarrow> addr option \<Rightarrow> state \<Rightarrow> (error + json) \<times> state" where
  "get L net self path hopt s = http L net self ''get'' path hopt None s"

definition post ::
  "library \<Rightarrow> network \<Rightarrow> addr \<Rightarrow> string \<Rightarrow> body \<Rightarrow> addr option \<Rightarrow> state
     \<Rightarrow> (error + json) \<times> state" where
  "post L net self path b hopt s = payload L net self ''post'' path b hopt s"

definition put ::
  "library \<Rightarrow> network \<Rightarrow> addr \<Rightarrow> string \<Rightarrow> body \<Rightarrow> addr option \<Rightarrow> state
     \<Rightarrow> (error + json) \<times> state" where
  "put L net self path b hopt s = payload L net self ''put'' path b hopt s"

subsection \<open>What the receiver of a request reads\<close>

text \<open>
  Decoding UTF-8, for the code points that \<open>string\<close> holds: a byte below 128 is one
  code point; the lead bytes 194 and 195 take one continuation byte; every other
  sequence is rejected.
\<close>

fun decode_utf8 :: "byte list \<Rightarrow> string option" where
  "decode_utf8 [] = Some []"
| "decode_utf8 [b] = (if unat b < 128 then Some [char_of (unat b)] else None)"
| "decode_utf8 (b # c # bs) =
     (if unat b < 128 then map_option ((#) (char_of (unat b))) (decode_utf8 (c # bs))
      else if 194 \<le> unat b \<and> unat b \<le> 195 \<and> 128 \<le> unat c \<and> unat c < 192
      then map_option ((#) (char_of ((unat b - 192) * 64 + (unat c - 128)))) (decode_utf8 bs)
      else None)"

text \<open>
  Reading the value of a length header: a decimal numeral with no sign, no blank and no
  leading zero.
\<close>

definition digit_value :: "char \<Rightarrow> nat option" where
  "digit_value c =
     (if 48 \<le> (of_char c :: nat) \<and> (of_char c :: nat) \<le> 57 then Some (of_char c - 48) else None)"

fun digits_value :: "string \<Rightarrow> nat \<Rightarrow> nat option" where
  "digits_value [] acc = Some acc"
| "digits_value (c # cs) acc =
     (case digit_value c of None \<Rightarrow> None | Some d \<Rightarrow> digits_value cs (10 * acc + d))"

definition nat_of_decimal :: "string \<Rightarrow> nat option" where
  "nat_of_decimal s =
     (case s of
        [] \<Rightarrow> None
      | c # cs \<Rightarrow> if c = CHR ''0'' \<and> cs \<noteq> [] then None else digits_value s 0)"

subsection \<open>The rule of the URL join for an absolute path\<close>

text \<open>
  A base URL is written \<open>scheme://netloc\<close> followed by its path. The rule of
  RFC 3986, which \<open>urljoin\<close> follows: joined with a reference that starts with one
  slash, the result keeps the scheme and the network location of the base and takes
  the reference as its whole path. The rule is stated for \<open>http\<close> and \<open>https\<close> bases
  and for references made of letters, digits, \<open>. - _ ~\<close> and slashes, with no segment
  \<open>.\<close> or \<open>..\<close> (which the join would remove) and no second leading slash (which
  would start a network location).
\<close>

definition is_alnum :: "char \<Rightarrow> bool" where
  "is_alnum c =
     (let n = (of_char c :: nat)
      in (48 \<le> n \<and> n \<le> 57) \<or> (65 \<le> n \<and> n \<le> 90) \<or> (97 \<le> n \<and> n \<le> 122))"

definition host_char :: "char \<Rightarrow> bool" where
  "host_char c = (is_alnum c \<or> c = CHR ''.'' \<or> c = CHR ''-'' \<or> c = CHR '':'')"

definition path_char :: "char \<Rightarrow> bool" where
  "path_char c =
     (is_alnum c \<or> c = CHR ''.'' \<or> c = CHR ''-'' \<or> c = CHR ''_'' \<or> c = CHR ''~'' \<or> c = CHR ''/'')"

definition wellformed_base :: "string \<Rightarrow> string \<Rightarrow> string \<Rightarrow> bool" where
  "wellformed_base scheme netloc bpath =
     ((scheme = ''http'' \<or> scheme = ''https'') \<and> netloc \<noteq> [] \<and> list_all host_char netloc
      \<and> list_all path_char bpath
      \<and> (case bpath of [] \<Rightarrow> True | c # cs \<Rightarrow> c = CHR ''/''))"

definition plain_segments :: "string \<Rightarrow> bool" where
  "plain_segments p =
     (list_all path_char p
      \<and> (case p of [] \<Rightarrow> True | c # cs \<Rightarrow> c \<noteq> CHR ''/'')
      \<and> ''.'' \<notin> set (split_on CHR ''/'' p) \<and> ''..'' \<notin> set (split_on CHR ''/'' p))"

definition urljoin_absolute_rule :: "(string \<Rightarrow> string \<Rightarrow> string) \<Rightarrow> bool" where
  "urljoin_absolute_rule join =
     (\<forall>scheme netloc bpath p.
        wellformed_base scheme netloc bpath \<and> plain_segments p \<longrightarrow>
        join (scheme @ ''://'' @ netloc @ bpath) (CHR ''/'' # p) =
          scheme @ ''://'' @ netloc @ CHR ''/'' # p)"

subsection \<open>Concrete inputs\<close>

text \<open>
  The body that the comment on line 61 quotes as the response to recognise.
\<close>

definition errors_example :: json where
  "errors_example =
     JDict [(''errors'',
       JList [JDict [(''status'', JStr ''403''), (''code'', JStr ''not_authenticated''),
                     (''title'', JStr ''Authentication credentials were not provided.'')]])]"

text \<open>
  A library, two stores and two responses on which the definitions can be run: the
  store \<open>state1\<close> holds one client with its token headers, \<open>html_response\<close> is a
  body that is not JSON, \<open>users_response\<close> one that is.
\<close>

definition lib0 :: library where
  "lib0 = \<lparr>urljoin = (\<lambda>b p. b @ p), urlparse_netloc = (\<lambda>u. u),
            dumps = (\<lambda>d. ''{}''), str_of = (\<lambda>v. [])\<rparr>"

definition state0 :: state where
  "state0 = \<lparr>dicts = [], clients = [], trace = []\<rparr>"

definition state1 :: state where
  "state1 = \<lparr>dicts = [[(''Accept'', ''application/json''), (''Authorization'', ''Token abc'')]],
     clients = [\<lparr>galaxy_root = ''https://galaxy.example/'', headers = 0,
                 token = JStr ''abc'', docker_client = None\<rparr>],
     trace = []\<rparr>"

definition html_response :: response where
  "html_response = \<lparr>resp_text = ''<html>'', resp_json = None, resp_chunks = [[60, 104, 116, 109, 108, 62]]\<rparr>"

definition users_response :: response where
  "users_response = \<lparr>resp_text = ''[]'', resp_json = Some (JList []),
     resp_chunks = [[91, 93]]\<rparr>"

text \<open>
  A join that obeys the rule for absolute paths and appends any other path to the
  base; a serialiser and a parser that agree on two mappings; a library made of
  them; a store whose client has a base URL with a path.
\<close>

definition url_origin :: "string \<Rightarrow> string" where
  "url_origin u =
     (let scheme = takeWhile (\<lambda>c. c \<noteq> CHR '':'') u;
          after = drop (length scheme + 3) u
      in scheme @ ''://'' @ takeWhile (\<lambda>c. c \<noteq> CHR ''/'') after)"

definition join_example :: "string \<Rightarrow> string \<Rightarrow> string" where
  "join_example base path =
     (case path of
        [] \<Rightarrow> base
      | c # cs \<Rightarrow> if c = CHR ''/'' then url_origin base @ path else base @ path)"

definition dumps_example :: "(string \<times> json) list \<Rightarrow> string" where
  \<open>dumps_example d = (if d = [(''name'', JStr ''x'')] then ''{"name": "x"}'' else ''{}'')\<close>

definition loads_example :: "string \<Rightarrow> json option" where
  \<open>loads_example t =
     (if t = ''{"name": "x"}'' then Some (JDict [(''name'', JStr ''x'')])
      else if t = ''{}'' then Some (JDict [])
      else None)\<close>

definition lib1 :: library where
  "lib1 = \<lparr>urljoin = join_example, urlparse_netloc = (\<lambda>u. u),
            dumps = dumps_example, str_of = (\<lambda>v. [])\<rparr>"

definition state2 :: state where
  "state2 = \<lparr>dicts = [[]],
     clients = [\<lparr>galaxy_root = ''https://galaxy.example/api/'', headers = 0,
                 token = JStr [], docker_client = None\<rparr>],
     trace = []\<rparr>"

section \<open>Properties\<close>

subsection \<open>Auxiliary facts\<close>

declare str_nat.simps [simp del]

text \<open>
  The name \<open>user\<close> is bound neither in the constructor nor at module level (nor is it
  a builtin).
\<close>

lemma lookup_user:
  "lookup [(''galaxy_root'', root), (''username'', u), (''password'', p)] ''user'' = Inl (NameError ''user'')"
  by (simp add: lookup_def)

lemma user_not_module_name: "''user'' \<notin> set module_names"
  by (simp add: module_names_def)

lemma init_auth:
  "init L net root (Some (u, p)) ce cr s =
     (Inl (NameError ''user''),
      s\<lparr>dicts := dicts s @ [[]],
        clients := clients s @
          [\<lparr>galaxy_root = root, headers = length (dicts s), token = JStr [], docker_client = None\<rparr>]\<rparr>)"
  by (simp add: init_def new_dict_def new_client_def lookup_user)

lemma init_no_auth:
  "init L net root None ce cr s =
     (Inr (length (clients s)),
      s\<lparr>dicts := dicts s @ [[]],
        clients := clients s @
          [\<lparr>galaxy_root = root, headers = length (dicts s), token = JStr [], docker_client = None\<rparr>]\<rparr>)"
  by (simp add: init_def new_dict_def new_client_def)

text \<open>
  What lines 34 to 41 do once a response is at hand, on the store the first two lines
  of the constructor leave: the token is read or the failure is printed, and the two
  headers are written.
\<close>

lemma fetch_token_non_json:
  "fetch_token \<lparr>resp_text = t, resp_json = None, resp_chunks = cs\<rparr> self s =
     (Inr (), emit (Stderr (''Failed to fetch token: '' @ t)) s)"
  by (simp add: fetch_token_def)

lemma headers_after_non_json:
  "dict_at (set_auth_headers L 0
       (snd (fetch_token \<lparr>resp_text = t, resp_json = None, resp_chunks = cs\<rparr> 0
          (snd (init L net root None None None state0))))) 0 =
     [(''Accept'', ''application/json''), (''Authorization'', ''Token '')]"
  by (simp add: init_no_auth state0_def fetch_token_def emit_def set_auth_headers_def
        client_at_def dict_at_def dict_update_def dict_set_def format_value_def Let_def)

lemma headers_after_token:
  "dict_at (set_auth_headers L 0
       (snd (fetch_token
          \<lparr>resp_text = t, resp_json = Some (JDict [(''token'', JStr tok)]), resp_chunks = cs\<rparr> 0
          (snd (init L net root None None None state0))))) 0 =
     [(''Accept'', ''application/json''), (''Authorization'', ''Token '' @ tok)]"
  by (simp add: init_no_auth state0_def fetch_token_def emit_def set_auth_headers_def json_get_def
        client_at_def dict_at_def dict_update_def dict_set_def format_value_def Let_def)

lemma str_not_in_bytes: "py_in (PStr x) (map PBytes cs) = False"
  by (auto simp: py_in_def)

lemma http_trace:
  "\<exists>rest. trace (snd (http L net self m p hopt d s)) =
     trace s @ Sent (Request m (urljoin L (galaxy_root (client_at s self)) p)
        (case hopt of None \<Rightarrow> headers (client_at s self) | Some a \<Rightarrow> a)
        (dict_at s (case hopt of None \<Rightarrow> headers (client_at s self) | Some a \<Rightarrow> a)) d) # rest"
  by (auto simp: http_def send_def emit_def Let_def str_not_in_bytes split: sum.splits option.splits)

lemma http_store:
  "dicts (snd (http L net self m p hopt d s)) = dicts s \<and>
   clients (snd (http L net self m p hopt d s)) = clients s"
  by (auto simp: http_def send_def emit_def Let_def str_not_in_bytes split: sum.splits option.splits)

lemma http_parsed:
  "net (Request m (urljoin L (galaxy_root (client_at s self)) p)
        (case hopt of None \<Rightarrow> headers (client_at s self) | Some a \<Rightarrow> a)
        (dict_at s (case hopt of None \<Rightarrow> headers (client_at s self) | Some a \<Rightarrow> a)) d) = Inr resp
   \<Longrightarrow> resp_json resp = Some j
   \<Longrightarrow> fst (http L net self m p hopt d s) = Inr j"
  by (auto simp: http_def send_def emit_def Let_def str_not_in_bytes split: sum.splits option.splits)

lemma http_unparsed:
  "net (Request m (urljoin L (galaxy_root (client_at s self)) p)
        (case hopt of None \<Rightarrow> headers (client_at s self) | Some a \<Rightarrow> a)
        (dict_at s (case hopt of None \<Rightarrow> headers (client_at s self) | Some a \<Rightarrow> a)) d) = Inr resp
   \<Longrightarrow> resp_json resp = None
   \<Longrightarrow> http L net self m p hopt d s =
        (Inl (ValueError ''Failed to parse JSON response from API''),
         s\<lparr>trace := trace s @ [Sent (Request m (urljoin L (galaxy_root (client_at s self)) p)
        (case hopt of None \<Rightarrow> headers (client_at s self) | Some a \<Rightarrow> a)
        (dict_at s (case hopt of None \<Rightarrow> headers (client_at s self) | Some a \<Rightarrow> a)) d), Stdout (resp_text resp)]\<rparr>)"
  by (auto simp: http_def send_def emit_def Let_def str_not_in_bytes split: sum.splits option.splits)

lemma map_of_dict_set: "map_of (dict_set k v d) = (map_of d)(k \<mapsto> v)"
  by (simp add: dict_set_def update_conv')

lemma payload_headers_content_type:
  "map_of (payload_headers base data) ''Content-Type'' = Some ''application/json;charset=utf-8''"
  by (simp add: payload_headers_def map_of_dict_set)

lemma payload_headers_content_length:
  "map_of (payload_headers base data) ''Content-length'' = Some (str_nat (length data))"
  by (simp add: payload_headers_def map_of_dict_set)

lemma payload_headers_empty:
  "payload_headers [] data =
     [(''Content-Type'', ''application/json;charset=utf-8''), (''Content-length'', str_nat (length data))]"
  by (simp add: payload_headers_def dict_set_def dict_update_def)

lemma payload_eq:
  "payload L net self m p b hopt s =
     http L net self m p (Some (length (dicts s))) (Some (payload_bytes L b))
       (s\<lparr>dicts := dicts s @
          [payload_headers (dict_at s (case hopt of None \<Rightarrow> headers (client_at s self) | Some a \<Rightarrow> a))
             (payload_bytes L b)]\<rparr>)"
  by (simp add: payload_def new_dict_def Let_def)

text \<open>The decoder reads back what \<open>encode_utf8\<close> writes.\<close>

lemma unat_byte_of_char: "unat (of_char c :: byte) = of_char c"
proof -
  have "(of_char c :: byte) = of_nat (of_char c)" by (simp only: of_nat_of_char)
  then have "unat (of_char c :: byte) = (of_char c :: nat) mod 2 ^ LENGTH(8)"
    by (simp only: unat_of_nat)
  then show ?thesis by simp
qed

lemma unat_byte_of_nat: "n < 256 \<Longrightarrow> unat (of_nat n :: byte) = n"
  by (simp only: unat_of_nat) simp

lemma decode_ascii:
  "of_char c < (128::nat) \<Longrightarrow>
   decode_utf8 ((of_char c :: byte) # bs) = map_option ((#) c) (decode_utf8 bs)"
  by (cases bs) (simp_all add: unat_byte_of_char)

lemma div64_bounds:
  assumes "128 \<le> (n::nat)" and "n < 256"
  shows "2 \<le> n div 64" and "n div 64 < 4"
proof -
  from div_le_mono [OF assms(1), of 64] show "2 \<le> n div 64" by simp
  from assms(2) show "n div 64 < 4" by (intro less_mult_imp_div_less) simp
qed

lemma decode_two:
  assumes "\<not> of_char c < (128::nat)"
  shows "decode_utf8 ((of_nat (192 + of_char c div 64) :: byte) # (of_nat (128 + of_char c mod 64) :: byte) # bs)
         = map_option ((#) c) (decode_utf8 bs)"
proof -
  define n where "n = (of_char c :: nat)"
  define q where "q = n div 64"
  define r where "r = n mod 64"
  define b1 where "b1 = (of_nat (192 + q) :: byte)"
  define b2 where "b2 = (of_nat (128 + r) :: byte)"
  have lt: "n < 256" by (simp add: n_def)
  have ge: "128 \<le> n" using assms by (simp add: n_def)
  have q: "2 \<le> q" "q < 4"
    unfolding q_def using div64_bounds [OF ge lt] by blast+
  have r: "r < 64" by (simp add: r_def)
  have n: "q * 64 + r = n" by (simp add: q_def r_def)
  have "192 + q < 256" using q by linarith
  then have u1: "unat b1 = 192 + q"
    unfolding b1_def by (rule unat_byte_of_nat)
  have "128 + r < 256" using r by linarith
  then have u2: "unat b2 = 128 + r"
    unfolding b2_def by (rule unat_byte_of_nat)
  have recon: "(unat b1 - 192) * 64 + (unat b2 - 128) = n"
    using n by (simp only: u1 u2 add_diff_cancel_left')
  have c1: "\<not> unat b1 < 128" using q unfolding u1 by linarith
  have c2: "194 \<le> unat b1 \<and> unat b1 \<le> 195 \<and> 128 \<le> unat b2 \<and> unat b2 < 192"
    using q r unfolding u1 u2 by linarith
  have "decode_utf8 (b1 # b2 # bs) = map_option ((#) (char_of n)) (decode_utf8 bs)"
    by (simp only: decode_utf8.simps c1 c2 recon if_True if_False simp_thms)
  moreover have "char_of n = c" by (simp add: n_def)
  ultimately show ?thesis by (simp only: b1_def b2_def q_def r_def n_def)
qed

lemma encode_utf8_Cons:
  "encode_utf8 (c # s) =
      (if of_char c < (128::nat) then [of_char c]
       else [of_nat (192 + of_char c div 64), of_nat (128 + of_char c mod 64)]) @ encode_utf8 s"
  by (simp add: encode_utf8_def)

lemma decode_encode_utf8: "decode_utf8 (encode_utf8 s) = Some s"
proof (induction s)
  case Nil
  then show ?case by (simp add: encode_utf8_def)
next
  case (Cons c s)
  show ?case
  proof (cases "of_char c < (128::nat)")
    case True
    then have "encode_utf8 (c # s) = of_char c # encode_utf8 s"
      by (simp only: encode_utf8_Cons if_True append.simps)
    then show ?thesis using True Cons by (simp only: decode_ascii option.map)
  next
    case False
    then have "encode_utf8 (c # s) =
        of_nat (192 + of_char c div 64) # of_nat (128 + of_char c mod 64) # encode_utf8 s"
      by (simp only: encode_utf8_Cons if_False append.simps)
    then show ?thesis using False Cons by (simp only: decode_two option.map simp_thms)
  qed
qed

text \<open>The numeral that \<open>str_nat\<close> writes reads back as the number.\<close>

lemma digit_value_digit: "d < 10 \<Longrightarrow> digit_value (digit d) = Some d"
  by (simp add: digit_value_def digit_def)

lemma digits_value_snoc:
  "digits_value (xs @ [c]) acc =
     (case digits_value xs acc of None \<Rightarrow> None
      | Some a \<Rightarrow> (case digit_value c of None \<Rightarrow> None | Some d \<Rightarrow> Some (10 * a + d)))"
  by (induction xs arbitrary: acc) (auto split: option.splits)

lemma str_nat_nonempty: "str_nat n \<noteq> []"
  by (subst str_nat.simps) simp

lemma digits_value_str_nat: "digits_value (str_nat n) 0 = Some n"
proof (induction n rule: str_nat.induct)
  case (1 n)
  show ?case
  proof (cases "n < 10")
    case True
    then show ?thesis by (subst str_nat.simps) (simp add: digit_value_digit)
  next
    case False
    with 1 have "digits_value (str_nat (n div 10)) 0 = Some (n div 10)" by simp
    then show ?thesis using False
      by (subst str_nat.simps) (simp add: digits_value_snoc digit_value_digit)
  qed
qed

lemma hd_str_nat: "0 < n \<Longrightarrow> hd (str_nat n) \<noteq> CHR ''0''"
proof (induction n rule: str_nat.induct)
  case (1 n)
  show ?case
  proof (cases "n < 10")
    case True
    have "digit_value (digit n) = Some n"
      using True by (rule digit_value_digit)
    moreover have "digit_value CHR ''0'' = Some 0"
      by (simp add: digit_value_def)
    ultimately have "digit n \<noteq> CHR ''0''"
      using 1(2) by (metis less_numeral_extra(3) option.inject)
    then show ?thesis using True by (subst str_nat.simps) simp
  next
    case False
    then have "0 < n div 10" by simp
    with 1 False have "hd (str_nat (n div 10)) \<noteq> CHR ''0''" by simp
    then show ?thesis using False
      by (subst str_nat.simps) (simp add: str_nat_nonempty)
  qed
qed

lemma nat_of_decimal_str_nat: "nat_of_decimal (str_nat n) = Some n"
proof (cases "str_nat n")
  case Nil
  then show ?thesis using str_nat_nonempty by simp
next
  case (Cons c cs)
  have "\<not> (c = CHR ''0'' \<and> cs \<noteq> [])"
  proof
    assume a: "c = CHR ''0'' \<and> cs \<noteq> []"
    have "n = 0 \<or> 0 < n" by auto
    then show False
    proof
      assume "n = 0"
      then have "str_nat n = [digit 0]" by (subst str_nat.simps) simp
      with Cons a show False by simp
    next
      assume "0 < n"
      from hd_str_nat [OF this] Cons a show False by simp
    qed
  qed
  then show ?thesis
    using digits_value_str_nat [of n] Cons by (auto simp: nat_of_decimal_def)
qed

text \<open>The example join obeys the rule for absolute paths.\<close>

lemma host_char_no_slash: "host_char c \<Longrightarrow> c \<noteq> CHR ''/''"
  by (auto simp: host_char_def is_alnum_def)

lemma takeWhile_netloc:
  assumes "list_all host_char netloc" and "case bpath of [] \<Rightarrow> True | c # cs \<Rightarrow> c = CHR ''/''"
  shows "takeWhile (\<lambda>c. c \<noteq> CHR ''/'') (netloc @ bpath) = netloc"
proof -
  have all: "\<forall>c\<in>set netloc. c \<noteq> CHR ''/''"
    using assms(1) host_char_no_slash by (auto simp: list_all_iff)
  have "takeWhile (\<lambda>c. c \<noteq> CHR ''/'') bpath = []"
    using assms(2) by (cases bpath) simp_all
  with all show ?thesis by (simp add: takeWhile_append)
qed

lemma url_origin_wellformed:
  assumes "wellformed_base scheme netloc bpath"
  shows "url_origin (scheme @ ''://'' @ netloc @ bpath) = scheme @ ''://'' @ netloc"
proof -
  from assms have nl: "takeWhile (\<lambda>c. c \<noteq> CHR ''/'') (netloc @ bpath) = netloc"
    by (intro takeWhile_netloc) (simp_all add: wellformed_base_def)
  from assms have "scheme = ''http'' \<or> scheme = ''https''"
    by (simp add: wellformed_base_def)
  then show ?thesis
  proof
    assume "scheme = ''http''"
    then show ?thesis by (simp add: url_origin_def nl)
  next
    assume "scheme = ''https''"
    then show ?thesis by (simp add: url_origin_def nl)
  qed
qed

lemma join_example_rule: "urljoin_absolute_rule join_example"
  unfolding urljoin_absolute_rule_def
proof (intro allI impI)
  fix scheme netloc bpath p
  assume "wellformed_base scheme netloc bpath \<and> plain_segments p"
  then have "url_origin (scheme @ ''://'' @ netloc @ bpath) = scheme @ ''://'' @ netloc"
    by (simp only: url_origin_wellformed)
  then show "join_example (scheme @ ''://'' @ netloc @ bpath) (CHR ''/'' # p) =
      scheme @ ''://'' @ netloc @ CHR ''/'' # p"
    by (simp add: join_example_def)
qed

lemma http_trace_exact:
  "\<exists>rest. trace (snd (http L net self m p hopt d s)) =
     trace s @ Sent (Request m (urljoin L (galaxy_root (client_at s self)) p)
        (case hopt of None \<Rightarrow> headers (client_at s self) | Some a \<Rightarrow> a)
        (dict_at s (case hopt of None \<Rightarrow> headers (client_at s self) | Some a \<Rightarrow> a)) d) # rest
     \<and> (rest = [] \<or> (\<exists>t. rest = [Stdout t]))"
  by (auto simp: http_def send_def emit_def Let_def str_not_in_bytes split: sum.splits option.splits)

lemma payload_headers_content_length_reads_back:
  "\<exists>v. map_of (payload_headers base data) ''Content-length'' = Some v
       \<and> v = str_nat (length data) \<and> nat_of_decimal v = Some (length data)"
  by (simp add: payload_headers_content_length nat_of_decimal_str_nat)

lemma dumps_example_bytes:
  "encode_utf8 (dumps lib1 [(''name'', JStr ''x'')]) =
     [123, 34, 110, 97, 109, 101, 34, 58, 32, 34, 120, 34, 125]"
  by (simp add: lib1_def dumps_example_def encode_utf8_def)

subsection \<open>The constructor with credentials\<close>

text \<open>
  Claim C1. The claim: constructing a client with a credential pair posts to
  \<open>{base_url}v3/auth/token/\<close> with basic authentication and, when the answer is JSON
  with a \<open>token\<close> field, leaves the headers \<open>Authorization: Token <token>\<close> and
  \<open>Accept: application/json\<close> in the client.
  The code: line 32 binds \<open>username\<close>, line 33 reads \<open>user\<close>. For every credential
  pair, and whatever the endpoint would answer, the constructor raises
  \<open>NameError\<close> before anything is sent: the trace is unchanged and no client is
  returned. The last conjunct is what lines 34 to 41 write into the headers of a new
  client when they are given such an answer.
\<close>

theorem init_token_json_raises_NameError:
  "fst (init L (\<lambda>r. Inr \<lparr>resp_text = t, resp_json = Some (JDict [(''token'', JStr tok)]),
                            resp_chunks = cs\<rparr>)
          root (Some (u, p)) ce cr s) = Inl (NameError ''user'')
   \<and> trace (snd (init L (\<lambda>r. Inr \<lparr>resp_text = t, resp_json = Some (JDict [(''token'', JStr tok)]),
                                    resp_chunks = cs\<rparr>)
          root (Some (u, p)) ce cr s)) = trace s
   \<and> dict_at (set_auth_headers L 0
         (snd (fetch_token
            \<lparr>resp_text = t, resp_json = Some (JDict [(''token'', JStr tok)]), resp_chunks = cs\<rparr> 0
            (snd (init L net root None None None state0))))) 0 =
       [(''Accept'', ''application/json''), (''Authorization'', ''Token '' @ tok)]"
  by (simp add: init_auth headers_after_token)

text \<open>
  Claim C6. The claim: when the token endpoint answers with a body that is not JSON,
  the constructor does not raise; it reports to standard error, leaves the token unset
  and returns a client.
  The code: the \<open>try\<close> of lines 34 to 37 would do so (\<open>fetch_token\<close>), but line 33
  raises \<open>NameError\<close> first, so the constructor raises and nothing is written to
  standard error. The last conjunct is the \<open>try\<close> on its own: it prints and does not
  raise.
\<close>

theorem init_non_json_raises_NameError:
  "fst (init L (\<lambda>r. Inr \<lparr>resp_text = t, resp_json = None, resp_chunks = cs\<rparr>)
          root (Some (u, p)) ce cr s) = Inl (NameError ''user'')
   \<and> trace (snd (init L (\<lambda>r. Inr \<lparr>resp_text = t, resp_json = None, resp_chunks = cs\<rparr>)
          root (Some (u, p)) ce cr s)) = trace s
   \<and> fetch_token \<lparr>resp_text = t, resp_json = None, resp_chunks = cs\<rparr> self s' =
       (Inr (), emit (Stderr (''Failed to fetch token: '' @ t)) s')"
  by (simp add: init_auth fetch_token_non_json)

text \<open>
  Claim C10. The claim: after a token answer that is not JSON, the client's
  \<open>Authorization\<close> header is present and equals \<open>Token \<close> followed by the empty
  token.
  The code: lines 38 to 41 would write that header (\<open>set_auth_headers\<close> with the class
  attribute \<open>token = ""\<close>), but they are never reached: the constructor returns no
  client, and the one dictionary it created is still empty. The last conjunct is what
  lines 34 to 41 write into the headers of a new client after such an answer.
\<close>

theorem init_non_json_no_client_no_header:
  "(\<forall>self. fst (init L (\<lambda>r. Inr \<lparr>resp_text = t, resp_json = None, resp_chunks = cs\<rparr>)
          root (Some (u, p)) ce cr s) \<noteq> Inr self)
   \<and> dicts (snd (init L (\<lambda>r. Inr \<lparr>resp_text = t, resp_json = None, resp_chunks = cs\<rparr>)
          root (Some (u, p)) ce cr s)) = dicts s @ [[]]
   \<and> dict_at (set_auth_headers L 0
         (snd (fetch_token \<lparr>resp_text = t, resp_json = None, resp_chunks = cs\<rparr> 0
            (snd (init L net root None None None state0))))) 0 =
       [(''Accept'', ''application/json''), (''Authorization'', ''Token '')]"
  by (simp add: init_auth headers_after_non_json)

text \<open>
  Claim C7. The claim: with a container engine and no registry, the client derives the
  registry host as the network location of the base URL with port 5001 and starts a
  container-engine session with the credentials, the engine and that host.
  The code: the session is only started inside the credentials branch, where line 33
  has already raised \<open>NameError\<close>; no session is started. The expression of line 45
  would not produce a host either: it adds the string \<open>":5001"\<close> to the list that
  \<open>split\<close> returns, which raises \<open>TypeError\<close>.
\<close>

theorem init_container_engine_raises:
  "fst (init L net root (Some (u, p)) (Some engine) None s) = Inl (NameError ''user'')
   \<and> trace (snd (init L net root (Some (u, p)) (Some engine) None s)) = trace s
   \<and> registry_or_default L root None = Inl (TypeError ''unsupported operand types for +'')"
  by (simp add: init_auth registry_or_default_def default_registry_def)

subsection \<open>Dispatch\<close>

text \<open>
  Claim C2. The claim: when the parsed body is a mapping with an \<open>errors\<close> list,
  \<open>get\<close>, \<open>post\<close> and \<open>put\<close> raise a generic failure whose message is the title of the
  first error.
  The code: line 60 tests \<open>"errors" in resp\<close> on the response object, whose iteration
  yields byte chunks, so the test is false for every response and the parsed body is
  returned to the caller. On the body that the comment of line 61 quotes, each of the
  three calls returns that body.
\<close>

theorem errors_body_is_returned:
  "fst (get L (\<lambda>r. Inr \<lparr>resp_text = t, resp_json = Some errors_example, resp_chunks = cs\<rparr>)
          self path hopt s) = Inr errors_example
   \<and> fst (post L (\<lambda>r. Inr \<lparr>resp_text = t, resp_json = Some errors_example, resp_chunks = cs\<rparr>)
          self path b hopt s) = Inr errors_example
   \<and> fst (put L (\<lambda>r. Inr \<lparr>resp_text = t, resp_json = Some errors_example, resp_chunks = cs\<rparr>)
          self path b hopt s) = Inr errors_example"
  by (simp add: get_def post_def put_def payload_eq http_parsed)

text \<open>
  Claim C3. Let \<open>d\<close> be a mapping passed to \<open>post\<close> or \<open>put\<close>, and let the serialiser
  keep its contract on \<open>d\<close>: the JSON parser \<open>loads\<close> reads \<open>dumps d\<close> back as \<open>d\<close>.
  Then the call sends exactly one request. Its data is the UTF-8 encoding of
  \<open>dumps d\<close>: the bytes decode to a text that the parser reads as \<open>d\<close>, so they are
  valid JSON. Its headers hold \<open>Content-Type: application/json;charset=utf-8\<close> and a
  content length whose value, read as a decimal numeral, is the number of bytes of the
  data. The code spells the second header name \<open>Content-length\<close>; header names do not
  distinguish case.
\<close>

theorem post_put_payload_content_length:
  assumes contract: "loads (dumps L d) = Some (JDict d)"
  shows "(\<exists>h hd data rest.
      trace (snd (post L net self path (BodyDict d) hopt s)) =
        trace s @ Sent (Request ''post'' (urljoin L (galaxy_root (client_at s self)) path) h hd
                          (Some data)) # rest
      \<and> (rest = [] \<or> (\<exists>t. rest = [Stdout t]))
      \<and> data = encode_utf8 (dumps L d)
      \<and> (\<exists>text. decode_utf8 data = Some text \<and> loads text = Some (JDict d))
      \<and> map_of hd ''Content-Type'' = Some ''application/json;charset=utf-8''
      \<and> (\<exists>v. map_of hd ''Content-length'' = Some v \<and> nat_of_decimal v = Some (length data)))
   \<and> (\<exists>h hd data rest.
      trace (snd (put L net self path (BodyDict d) hopt s)) =
        trace s @ Sent (Request ''put'' (urljoin L (galaxy_root (client_at s self)) path) h hd
                          (Some data)) # rest
      \<and> (rest = [] \<or> (\<exists>t. rest = [Stdout t]))
      \<and> data = encode_utf8 (dumps L d)
      \<and> (\<exists>text. decode_utf8 data = Some text \<and> loads text = Some (JDict d))
      \<and> map_of hd ''Content-Type'' = Some ''application/json;charset=utf-8''
      \<and> (\<exists>v. map_of hd ''Content-length'' = Some v \<and> nat_of_decimal v = Some (length data)))"
proof -
  let ?data = "encode_utf8 (dumps L d)"
  let ?base = "dict_at s (case hopt of None \<Rightarrow> headers (client_at s self) | Some a \<Rightarrow> a)"
  let ?hd = "payload_headers ?base ?data"
  let ?s1 = "s\<lparr>dicts := dicts s @ [?hd]\<rparr>"
  have parses: "\<exists>text. decode_utf8 ?data = Some text \<and> loads text = Some (JDict d)"
    using contract by (simp add: decode_encode_utf8)
  have ctype: "map_of ?hd ''Content-Type'' = Some ''application/json;charset=utf-8''"
    by (rule payload_headers_content_type)
  have clen: "\<exists>v. map_of ?hd ''Content-length'' = Some v \<and> nat_of_decimal v = Some (length ?data)"
    using payload_headers_content_length_reads_back [of ?base ?data] by blast
  have sent: "\<exists>rest. trace (snd (payload L net self m path (BodyDict d) hopt s)) =
      trace s @ Sent (Request m (urljoin L (galaxy_root (client_at s self)) path)
        (length (dicts s)) ?hd (Some ?data)) # rest
      \<and> (rest = [] \<or> (\<exists>t. rest = [Stdout t]))" for m
    using http_trace_exact [of L net self m path "Some (length (dicts s))" "Some ?data" ?s1]
    by (simp add: payload_eq payload_bytes_def client_at_def dict_at_def)
  have "\<exists>h hd data rest.
      trace (snd (payload L net self m path (BodyDict d) hopt s)) =
        trace s @ Sent (Request m (urljoin L (galaxy_root (client_at s self)) path) h hd
                          (Some data)) # rest
      \<and> (rest = [] \<or> (\<exists>t. rest = [Stdout t]))
      \<and> data = encode_utf8 (dumps L d)
      \<and> (\<exists>text. decode_utf8 data = Some text \<and> loads text = Some (JDict d))
      \<and> map_of hd ''Content-Type'' = Some ''application/json;charset=utf-8''
      \<and> (\<exists>v. map_of hd ''Content-length'' = Some v \<and> nat_of_decimal v = Some (length data))" for m
    using sent [of m] parses ctype clen by blast
  then show ?thesis
    by (simp only: post_def put_def simp_thms)
qed

theorem post_put_payload_content_length_witness:
  "loads_example (dumps lib1 [(''name'', JStr ''x'')]) = Some (JDict [(''name'', JStr ''x'')])
   \<and> (\<exists>h hd data rest.
        trace (snd (post lib1 (\<lambda>r. Inr users_response) 0 ''v3/users/''
                      (BodyDict [(''name'', JStr ''x'')]) None state1)) =
          Sent (Request ''post'' ''https://galaxy.example/v3/users/'' h hd (Some data)) # rest
        \<and> (rest = [] \<or> (\<exists>t. rest = [Stdout t]))
        \<and> data = [123, 34, 110, 97, 109, 101, 34, 58, 32, 34, 120, 34, 125]
        \<and> (\<exists>text. decode_utf8 data = Some text
              \<and> loads_example text = Some (JDict [(''name'', JStr ''x'')]))
        \<and> map_of hd ''Content-Type'' = Some ''application/json;charset=utf-8''
        \<and> (\<exists>v. map_of hd ''Content-length'' = Some v \<and> nat_of_decimal v = Some 13))
   \<and> str_nat 13 = ''13'' \<and> nat_of_decimal ''13'' = Some 13 \<and> nat_of_decimal [] = None
   \<and> encode_utf8 [CHR 0xE9] = [195, 169] \<and> decode_utf8 [195, 169] = Some [CHR 0xE9]
   \<and> decode_utf8 [233] = None"
proof -
  let ?d = "[(''name'', JStr ''x'')]"
  let ?call = "post lib1 (\<lambda>r. Inr users_response) 0 ''v3/users/'' (BodyDict ?d) None state1"
  have contract: "loads_example (dumps lib1 ?d) = Some (JDict ?d)"
    by (simp add: lib1_def dumps_example_def loads_example_def)
  have st: "trace state1 = [] \<and> galaxy_root (client_at state1 0) = ''https://galaxy.example/''"
    by (simp add: state1_def client_at_def)
  have url: "urljoin lib1 ''https://galaxy.example/'' ''v3/users/'' = ''https://galaxy.example/v3/users/''"
    by (simp add: lib1_def join_example_def)
  from post_put_payload_content_length
        [of loads_example lib1 ?d "\<lambda>r. Inr users_response" 0 "''v3/users/''" None state1,
         OF contract, THEN conjunct1]
  obtain h hd data rest where
    sent: "trace (snd ?call) =
        trace state1 @ Sent (Request ''post''
          (urljoin lib1 (galaxy_root (client_at state1 0)) ''v3/users/'') h hd (Some data)) # rest"
    and rest: "rest = [] \<or> (\<exists>t. rest = [Stdout t])"
    and data: "data = encode_utf8 (dumps lib1 ?d)"
    and parses: "\<exists>text. decode_utf8 data = Some text \<and> loads_example text = Some (JDict ?d)"
    and ctype: "map_of hd ''Content-Type'' = Some ''application/json;charset=utf-8''"
    and clen: "\<exists>v. map_of hd ''Content-length'' = Some v \<and> nat_of_decimal v = Some (length data)"
    by blast
  have sent': "trace (snd ?call) =
      Sent (Request ''post'' ''https://galaxy.example/v3/users/'' h hd (Some data)) # rest"
    using sent by (simp add: st url)
  have data': "data = [123, 34, 110, 97, 109, 101, 34, 58, 32, 34, 120, 34, 125]"
    using data by (simp only: dumps_example_bytes)
  have "length data = 13"
    by (simp add: data')
  with clen have clen': "\<exists>v. map_of hd ''Content-length'' = Some v \<and> nat_of_decimal v = Some 13"
    by (simp only:)
  have call: "\<exists>h hd data rest.
        trace (snd ?call) =
          Sent (Request ''post'' ''https://galaxy.example/v3/users/'' h hd (Some data)) # rest
        \<and> (rest = [] \<or> (\<exists>t. rest = [Stdout t]))
        \<and> data = [123, 34, 110, 97, 109, 101, 34, 58, 32, 34, 120, 34, 125]
        \<and> (\<exists>text. decode_utf8 data = Some text \<and> loads_example text = Some (JDict ?d))
        \<and> map_of hd ''Content-Type'' = Some ''application/json;charset=utf-8''
        \<and> (\<exists>v. map_of hd ''Content-length'' = Some v \<and> nat_of_decimal v = Some 13)"
    using sent' rest data' parses ctype clen' by blast
  have n1: "str_nat 13 = ''13''"
    by code_simp
  have n2: "nat_of_decimal ''13'' = Some 13 \<and> nat_of_decimal [] = None"
    by (simp add: nat_of_decimal_def digit_value_def)
  have e1: "encode_utf8 [CHR 0xE9] = [195, 169]"
    by (simp add: encode_utf8_def)
  have e2: "decode_utf8 [195, 169] = Some [CHR 0xE9] \<and> decode_utf8 [233] = None"
    by code_simp
  show ?thesis
    using contract call n1 n2 e1 e2 by (simp only: simp_thms)
qed

text \<open>
  Claim C4. For every client, path and optional header argument, \<open>get\<close> sends exactly
  one request, to \<open>urljoin(galaxy_root, path)\<close>, with the method \<open>get\<close> and no data.
  When the join keeps the rule for absolute paths and the base URL is
  \<open>scheme://netloc\<close> followed by a path, a request for \<open>/p\<close> goes to
  \<open>scheme://netloc/p\<close>: the path of the base is replaced, and when that path is not
  empty the URL differs from the base with \<open>/p\<close> appended.
\<close>

theorem get_requests_joined_url:
  "(\<exists>rest. trace (snd (get L net self path hopt s)) =
       trace s @ Sent (Request ''get'' (urljoin L (galaxy_root (client_at s self)) path)
          (case hopt of None \<Rightarrow> headers (client_at s self) | Some a \<Rightarrow> a)
          (dict_at s (case hopt of None \<Rightarrow> headers (client_at s self) | Some a \<Rightarrow> a)) None) # rest
       \<and> (rest = [] \<or> (\<exists>t. rest = [Stdout t])))
   \<and> (urljoin_absolute_rule (urljoin L) \<and> wellformed_base scheme netloc bpath \<and> plain_segments p
        \<and> galaxy_root (client_at s self) = scheme @ ''://'' @ netloc @ bpath \<longrightarrow>
       (\<exists>rest. trace (snd (get L net self (CHR ''/'' # p) hopt s)) =
          trace s @ Sent (Request ''get'' (scheme @ ''://'' @ netloc @ CHR ''/'' # p)
            (case hopt of None \<Rightarrow> headers (client_at s self) | Some a \<Rightarrow> a)
            (dict_at s (case hopt of None \<Rightarrow> headers (client_at s self) | Some a \<Rightarrow> a)) None) # rest
          \<and> (rest = [] \<or> (\<exists>t. rest = [Stdout t])))
       \<and> (bpath \<noteq> [] \<longrightarrow>
            scheme @ ''://'' @ netloc @ CHR ''/'' # p \<noteq>
              galaxy_root (client_at s self) @ CHR ''/'' # p))"
proof (intro conjI impI)
  show "\<exists>rest. trace (snd (get L net self path hopt s)) =
       trace s @ Sent (Request ''get'' (urljoin L (galaxy_root (client_at s self)) path)
          (case hopt of None \<Rightarrow> headers (client_at s self) | Some a \<Rightarrow> a)
          (dict_at s (case hopt of None \<Rightarrow> headers (client_at s self) | Some a \<Rightarrow> a)) None) # rest
       \<and> (rest = [] \<or> (\<exists>t. rest = [Stdout t]))"
    unfolding get_def by (rule http_trace_exact)
next
  assume a: "urljoin_absolute_rule (urljoin L) \<and> wellformed_base scheme netloc bpath
      \<and> plain_segments p \<and> galaxy_root (client_at s self) = scheme @ ''://'' @ netloc @ bpath"
  then have "urljoin L (scheme @ ''://'' @ netloc @ bpath) (CHR ''/'' # p) =
      scheme @ ''://'' @ netloc @ CHR ''/'' # p"
    unfolding urljoin_absolute_rule_def by blast
  with a have url: "urljoin L (galaxy_root (client_at s self)) (CHR ''/'' # p) =
      scheme @ ''://'' @ netloc @ CHR ''/'' # p"
    by (simp only:)
  show "\<exists>rest. trace (snd (get L net self (CHR ''/'' # p) hopt s)) =
          trace s @ Sent (Request ''get'' (scheme @ ''://'' @ netloc @ CHR ''/'' # p)
            (case hopt of None \<Rightarrow> headers (client_at s self) | Some a \<Rightarrow> a)
            (dict_at s (case hopt of None \<Rightarrow> headers (client_at s self) | Some a \<Rightarrow> a)) None) # rest
          \<and> (rest = [] \<or> (\<exists>t. rest = [Stdout t]))"
    using http_trace_exact [of L net self "''get''" "CHR ''/'' # p" hopt None s]
    unfolding get_def url by assumption
next
  assume a: "urljoin_absolute_rule (urljoin L) \<and> wellformed_base scheme netloc bpath
      \<and> plain_segments p \<and> galaxy_root (client_at s self) = scheme @ ''://'' @ netloc @ bpath"
  assume "bpath \<noteq> []"
  then show "scheme @ ''://'' @ netloc @ CHR ''/'' # p \<noteq>
              galaxy_root (client_at s self) @ CHR ''/'' # p"
    using a by simp
qed

theorem get_requests_joined_url_witness:
  "urljoin_absolute_rule (urljoin lib1) \<and> wellformed_base ''https'' ''galaxy.example'' ''/api/''
   \<and> plain_segments ''v3/users/''
   \<and> (\<exists>rest. trace (snd (get lib1 (\<lambda>r. Inr users_response) 0 ''/v3/users/'' None state2)) =
         Sent (Request ''get'' ''https://galaxy.example/v3/users/'' 0 [] None) # rest
         \<and> (rest = [] \<or> (\<exists>t. rest = [Stdout t])))
   \<and> ''https://galaxy.example/v3/users/'' \<noteq> ''https://galaxy.example/api//v3/users/''"
proof -
  have rule: "urljoin_absolute_rule (urljoin lib1)"
    by (simp add: lib1_def join_example_rule)
  have base: "wellformed_base ''https'' ''galaxy.example'' ''/api/''"
    by (simp add: wellformed_base_def host_char_def path_char_def is_alnum_def)
  have segs: "plain_segments ''v3/users/''"
    by (simp add: plain_segments_def path_char_def is_alnum_def)
  have root: "galaxy_root (client_at state2 0) = ''https'' @ ''://'' @ ''galaxy.example'' @ ''/api/''"
    by (simp add: state2_def client_at_def)
  have st: "trace state2 = [] \<and> headers (client_at state2 0) = 0 \<and> dict_at state2 0 = []"
    by (simp add: state2_def client_at_def dict_at_def)
  from get_requests_joined_url
    [of lib1 "\<lambda>r. Inr users_response" 0 "''/v3/users/''" None state2
        "''https''" "''galaxy.example''" "''/api/''" "''v3/users/''"]
    rule base segs root
  have "\<exists>rest. trace (snd (get lib1 (\<lambda>r. Inr users_response) 0 (CHR ''/'' # ''v3/users/'') None state2)) =
          trace state2 @ Sent (Request ''get'' (''https'' @ ''://'' @ ''galaxy.example'' @ CHR ''/'' # ''v3/users/'')
            (case None of None \<Rightarrow> headers (client_at state2 0) | Some a \<Rightarrow> a)
            (dict_at state2 (case None of None \<Rightarrow> headers (client_at state2 0) | Some a \<Rightarrow> a)) None) # rest
          \<and> (rest = [] \<or> (\<exists>t. rest = [Stdout t]))"
    by blast
  then show ?thesis
    using rule base segs by (simp add: st)
qed

text \<open>
  Claim C5. When the network answers with a response whose body is not JSON, each of
  \<open>get\<close>, \<open>post\<close> and \<open>put\<close> raises the value error of line 59, and the last thing it
  did before raising was to print the raw body. The result is an error, so no value
  reaches the caller.
\<close>

theorem non_json_response_raises_ValueError:
  assumes "\<forall>r. net r = Inr resp" and "resp_json resp = None"
  shows "fst (get L net self path hopt s) = Inl (ValueError ''Failed to parse JSON response from API'')
     \<and> last (trace (snd (get L net self path hopt s))) = Stdout (resp_text resp)
     \<and> fst (post L net self path b hopt s) = Inl (ValueError ''Failed to parse JSON response from API'')
     \<and> last (trace (snd (post L net self path b hopt s))) = Stdout (resp_text resp)
     \<and> fst (put L net self path b hopt s) = Inl (ValueError ''Failed to parse JSON response from API'')
     \<and> last (trace (snd (put L net self path b hopt s))) = Stdout (resp_text resp)"
proof -
  have h: "fst (http L net self m path ho d s') = Inl (ValueError ''Failed to parse JSON response from API'')
     \<and> last (trace (snd (http L net self m path ho d s'))) = Stdout (resp_text resp)" for m ho d s'
    using assms by (simp add: http_unparsed)
  show ?thesis
    by (simp add: get_def post_def put_def payload_eq h)
qed

theorem non_json_response_raises_ValueError_witness:
  "fst (get lib0 (\<lambda>r. Inr html_response) 0 ''v3/users/'' None state1) =
      Inl (ValueError ''Failed to parse JSON response from API'')
   \<and> last (trace (snd (get lib0 (\<lambda>r. Inr html_response) 0 ''v3/users/'' None state1))) = Stdout ''<html>''
   \<and> fst (post lib0 (\<lambda>r. Inr html_response) 0 ''v3/users/'' (BodyStr ''x'') None state1) =
      Inl (ValueError ''Failed to parse JSON response from API'')
   \<and> fst (put lib0 (\<lambda>r. Inr html_response) 0 ''v3/users/'' (BodyStr ''x'') None state1) =
      Inl (ValueError ''Failed to parse JSON response from API'')"
  using non_json_response_raises_ValueError
    [of "\<lambda>r. Inr html_response" html_response lib0 0 "''v3/users/''" None state1 "BodyStr ''x''"]
  by (simp add: html_response_def)

text \<open>
  Claim C8. No call writes to the store that existed before it. \<open>get\<close> leaves every
  client and every dictionary as it was. \<open>post\<close> and \<open>put\<close> leave every client and
  every existing dictionary as they were (the stored headers and a header argument of
  the caller among them) and add exactly one dictionary, at a reference that was not
  in use: the copy of the chosen headers with the two content headers, which is the
  mapping the request is sent with.
\<close>

theorem calls_leave_store_unchanged:
  "clients (snd (get L net self path hopt s)) = clients s
   \<and> dicts (snd (get L net self path hopt s)) = dicts s
   \<and> clients (snd (post L net self path b hopt s)) = clients s
   \<and> dicts (snd (post L net self path b hopt s)) =
       dicts s @ [payload_headers
         (dict_at s (case hopt of None \<Rightarrow> headers (client_at s self) | Some a \<Rightarrow> a))
         (payload_bytes L b)]
   \<and> (\<exists>hd rest. trace (snd (post L net self path b hopt s)) =
         trace s @ Sent (Request ''post'' (urljoin L (galaxy_root (client_at s self)) path)
                           (length (dicts s)) hd (Some (payload_bytes L b))) # rest)
   \<and> clients (snd (put L net self path b hopt s)) = clients s
   \<and> dicts (snd (put L net self path b hopt s)) =
       dicts s @ [payload_headers
         (dict_at s (case hopt of None \<Rightarrow> headers (client_at s self) | Some a \<Rightarrow> a))
         (payload_bytes L b)]
   \<and> (\<exists>hd rest. trace (snd (put L net self path b hopt s)) =
         trace s @ Sent (Request ''put'' (urljoin L (galaxy_root (client_at s self)) path)
                           (length (dicts s)) hd (Some (payload_bytes L b))) # rest)"
proof -
  let ?base = "dict_at s (case hopt of None \<Rightarrow> headers (client_at s self) | Some a \<Rightarrow> a)"
  let ?s1 = "s\<lparr>dicts := dicts s @ [payload_headers ?base (payload_bytes L b)]\<rparr>"
  have sent: "\<exists>hd rest. trace (snd (payload L net self m path b hopt s)) =
      trace s @ Sent (Request m (urljoin L (galaxy_root (client_at s self)) path)
        (length (dicts s)) hd (Some (payload_bytes L b))) # rest" for m
    using http_trace [of L net self m path "Some (length (dicts s))" "Some (payload_bytes L b)" ?s1]
    by (auto simp: payload_eq client_at_def dict_at_def)
  have store: "clients (snd (payload L net self m path b hopt s)) = clients s
      \<and> dicts (snd (payload L net self m path b hopt s)) =
          dicts s @ [payload_headers ?base (payload_bytes L b)]" for m
    by (simp add: payload_eq http_store)
  show ?thesis
    using sent [of "''post''"] sent [of "''put''"]
    by (simp add: get_def post_def put_def http_store store)
qed

subsection \<open>The constructor without credentials\<close>

text \<open>
  Claim C9. Without credentials the constructor returns a client, sends nothing (the
  trace is unchanged), and the client's header dictionary is empty. In every store
  where that dictionary is empty, a \<open>get\<close> with no header argument sends the empty
  mapping, and a \<open>post\<close> or \<open>put\<close> with no header argument sends a mapping with neither
  \<open>Accept\<close> nor \<open>Authorization\<close>.
\<close>

theorem init_without_auth_sends_no_auth_headers:
  "fst (init L net root None ce cr s) = Inr (length (clients s))
   \<and> trace (snd (init L net root None ce cr s)) = trace s
   \<and> dict_at (snd (init L net root None ce cr s))
        (headers (client_at (snd (init L net root None ce cr s)) (length (clients s)))) = []
   \<and> (\<forall>s' self. dict_at s' (headers (client_at s' self)) = [] \<longrightarrow>
        (\<exists>rest. trace (snd (get L net' self path None s')) =
           trace s' @ Sent (Request ''get'' (urljoin L (galaxy_root (client_at s' self)) path)
                              (headers (client_at s' self)) [] None) # rest)
      \<and> (\<exists>h hd rest. trace (snd (post L net' self path b None s')) =
           trace s' @ Sent (Request ''post'' (urljoin L (galaxy_root (client_at s' self)) path)
                              h hd (Some (payload_bytes L b))) # rest
           \<and> map_of hd ''Accept'' = None \<and> map_of hd ''Authorization'' = None)
      \<and> (\<exists>h hd rest. trace (snd (put L net' self path b None s')) =
           trace s' @ Sent (Request ''put'' (urljoin L (galaxy_root (client_at s' self)) path)
                              h hd (Some (payload_bytes L b))) # rest
           \<and> map_of hd ''Accept'' = None \<and> map_of hd ''Authorization'' = None))"
proof -
  have created: "fst (init L net root None ce cr s) = Inr (length (clients s))
     \<and> trace (snd (init L net root None ce cr s)) = trace s
     \<and> dict_at (snd (init L net root None ce cr s))
        (headers (client_at (snd (init L net root None ce cr s)) (length (clients s)))) = []"
    by (simp add: init_no_auth dict_at_def client_at_def)
  have later: "(\<exists>rest. trace (snd (get L net' self path None s')) =
           trace s' @ Sent (Request ''get'' (urljoin L (galaxy_root (client_at s' self)) path)
                              (headers (client_at s' self)) [] None) # rest)
      \<and> (\<exists>h hd rest. trace (snd (payload L net' self m path b None s')) =
           trace s' @ Sent (Request m (urljoin L (galaxy_root (client_at s' self)) path)
                              h hd (Some (payload_bytes L b))) # rest
           \<and> map_of hd ''Accept'' = None \<and> map_of hd ''Authorization'' = None)"
    if empty: "dict_at s' (headers (client_at s' self)) = []" for s' self m
  proof
    show "\<exists>rest. trace (snd (get L net' self path None s')) =
           trace s' @ Sent (Request ''get'' (urljoin L (galaxy_root (client_at s' self)) path)
                              (headers (client_at s' self)) [] None) # rest"
      using http_trace [of L net' self "''get''" path None None s'] empty
      by (simp add: get_def)
  next
    let ?hd = "payload_headers [] (payload_bytes L b)"
    let ?s1 = "s'\<lparr>dicts := dicts s' @ [?hd]\<rparr>"
    have "\<exists>rest. trace (snd (payload L net' self m path b None s')) =
        trace s' @ Sent (Request m (urljoin L (galaxy_root (client_at s' self)) path)
          (length (dicts s')) ?hd (Some (payload_bytes L b))) # rest"
      using http_trace [of L net' self m path "Some (length (dicts s'))" "Some (payload_bytes L b)" ?s1]
        empty
      by (auto simp: payload_eq client_at_def dict_at_def)
    moreover have "map_of ?hd ''Accept'' = None \<and> map_of ?hd ''Authorization'' = None"
      by (simp add: payload_headers_empty)
    ultimately show "\<exists>h hd rest. trace (snd (payload L net' self m path b None s')) =
           trace s' @ Sent (Request m (urljoin L (galaxy_root (client_at s' self)) path)
                              h hd (Some (payload_bytes L b))) # rest
           \<and> map_of hd ''Accept'' = None \<and> map_of hd ''Authorization'' = None"
      by blast
  qed
  show ?thesis
    using created later by (simp add: post_def put_def)
qed

theorem init_without_auth_sends_no_auth_headers_witness:
  "dict_at (snd (init lib0 (\<lambda>r. Inr users_response) ''https://galaxy.example/'' None None None state0))
     (headers (client_at
        (snd (init lib0 (\<lambda>r. Inr users_response) ''https://galaxy.example/'' None None None state0)) 0)) = []
   \<and> (\<exists>rest. trace (snd (get lib0 (\<lambda>r. Inr users_response) 0 ''v3/users/'' None
          (snd (init lib0 (\<lambda>r. Inr users_response) ''https://galaxy.example/'' None None None state0)))) =
        Sent (Request ''get'' ''https://galaxy.example/v3/users/'' 0 [] None) # rest)
   \<and> (\<exists>h hd rest. trace (snd (post lib0 (\<lambda>r. Inr users_response) 0 ''v3/users/'' (BodyStr ''x'') None
          (snd (init lib0 (\<lambda>r. Inr users_response) ''https://galaxy.example/'' None None None state0)))) =
        Sent (Request ''post'' ''https://galaxy.example/v3/users/'' h hd (Some [120])) # rest
        \<and> map_of hd ''Accept'' = None \<and> map_of hd ''Authorization'' = None)"
proof -
  let ?s1 = "snd (init lib0 (\<lambda>r. Inr users_response) ''https://galaxy.example/'' None None None state0)"
  have empty: "dict_at ?s1 (headers (client_at ?s1 0)) = []"
    by (simp add: init_no_auth dict_at_def client_at_def state0_def)
  have s1: "trace ?s1 = [] \<and> galaxy_root (client_at ?s1 0) = ''https://galaxy.example/''
      \<and> headers (client_at ?s1 0) = 0"
    by (simp add: init_no_auth client_at_def state0_def)
  have data: "payload_bytes lib0 (BodyStr ''x'') = [120]"
    by (simp add: payload_bytes_def encode_utf8_def)
  have url: "urljoin lib0 ''https://galaxy.example/'' ''v3/users/'' = ''https://galaxy.example/v3/users/''"
    by (simp add: lib0_def)
  from init_without_auth_sends_no_auth_headers
    [of lib0 "\<lambda>r. Inr users_response" "''https://galaxy.example/''" None None state0
        "\<lambda>r. Inr users_response" "''v3/users/''" "BodyStr ''x''"]
  have "\<forall>s' self. dict_at s' (headers (client_at s' self)) = [] \<longrightarrow>
        (\<exists>rest. trace (snd (get lib0 (\<lambda>r. Inr users_response) self ''v3/users/'' None s')) =
           trace s' @ Sent (Request ''get'' (urljoin lib0 (galaxy_root (client_at s' self)) ''v3/users/'')
                              (headers (client_at s' self)) [] None) # rest)
      \<and> (\<exists>h hd rest. trace (snd (post lib0 (\<lambda>r. Inr users_response) self ''v3/users/'' (BodyStr ''x'') None s')) =
           trace s' @ Sent (Request ''post'' (urljoin lib0 (galaxy_root (client_at s' self)) ''v3/users/'')
                              h hd (Some (payload_bytes lib0 (BodyStr ''x'')))) # rest
           \<and> map_of hd ''Accept'' = None \<and> map_of hd ''Authorization'' = None)"
    by blast
  from this [rule_format, of ?s1 0, OF empty] show ?thesis
    using empty by (simp add: s1 data url)
qed

end
